theory Spec2Isabelle
  imports Main
begin

section \<open>Python values that reach the query text\<close>

text \<open>
  The scripts splice their parameters into SQL text with f-strings. A parameter is a
  Python \<open>str\<close>, an \<open>int\<close> or \<open>None\<close>; \<open>limit\<close> is modelled as \<open>int option\<close>,
  \<open>country_code\<close> and \<open>species\<close> as \<open>string option\<close>, with \<open>None\<close> for Python's \<open>None\<close>.
\<close>

definition digit_char :: "nat \<Rightarrow> char" where
  "digit_char d = ''0123456789'' ! d"

fun str_nat :: "nat \<Rightarrow> string" where
  "str_nat n = (if n < 10 then [digit_char n] else str_nat (n div 10) @ [digit_char (n mod 10)])"

declare str_nat.simps [simp del]

text \<open>\<open>str(n)\<close> for a Python integer: decimal digits, with a leading minus sign.\<close>

definition str_int :: "int \<Rightarrow> string" where
  "str_int i = (if i < 0 then CHR ''-'' # str_nat (nat (- i)) else str_nat (nat i))"

text \<open>What \<open>{limit}\<close> inside an f-string produces: \<open>format(None)\<close> is the text \<open>None\<close>.\<close>

definition fmt_limit :: "int option \<Rightarrow> string" where
  "fmt_limit l = (case l of None \<Rightarrow> ''None'' | Some n \<Rightarrow> str_int n)"

text \<open>Python truthiness, as tested by \<open>if limit:\<close>, \<open>if country_code:\<close> and \<open>if species:\<close>.\<close>

definition truthy_int :: "int option \<Rightarrow> bool" where
  "truthy_int l = (case l of None \<Rightarrow> False | Some n \<Rightarrow> n \<noteq> 0)"

definition truthy_str :: "string option \<Rightarrow> bool" where
  "truthy_str s = (case s of None \<Rightarrow> False | Some x \<Rightarrow> x \<noteq> [])"

text \<open>What \<open>{country_code}\<close> and \<open>{species}\<close> produce; only reached for truthy values.\<close>

definition fmt_str :: "string option \<Rightarrow> string" where
  "fmt_str s = (case s of None \<Rightarrow> ''None'' | Some x \<Rightarrow> x)"

text \<open>The single quote character, which a HOL string literal cannot end with.\<close>

abbreviation (input) sq :: string where
  "sq \<equiv> [CHR 0x27]"

section \<open>Query construction in \<open>duck_gbif.py\<close>\<close>

subsection \<open>\<open>read_gbif_from_s3\<close>\<close>

definition read_s3_path :: "string \<Rightarrow> string" where
  "read_s3_path snapshot_date =
     ''s3://gbif-open-data-us-east-1/occurrence/'' @ snapshot_date @ ''/occurrence.parquet/*''"

definition read_query :: "string \<Rightarrow> int option \<Rightarrow> string" where
  "read_query snapshot_date limit =
     (let s3_path = read_s3_path snapshot_date;
          query = ''SELECT * FROM read_parquet('' @ sq @ s3_path @ sq @ '')'';
          query = (if truthy_int limit then query @ '' LIMIT '' @ fmt_limit limit else query)
      in query)"

subsection \<open>\<open>get_top_countries_by_species\<close>\<close>

definition top_s3_path :: "string \<Rightarrow> string \<Rightarrow> string" where
  "top_s3_path region snapshot_date =
     ''s3://gbif-open-data-'' @ region @ ''/occurrence/'' @ snapshot_date @ ''/occurrence.parquet/*''"

definition top_query :: "string \<Rightarrow> string \<Rightarrow> int option \<Rightarrow> string" where
  "top_query snapshot_date region limit =
     (let s3_path = top_s3_path region snapshot_date
      in ''\<newline>        SELECT \<newline>'' @
         ''            countrycode, \<newline>'' @
         ''            COUNT(DISTINCT specieskey) AS distinct_species_count \<newline>'' @
         ''        FROM read_parquet('' @ sq @ s3_path @ sq @ '')\<newline>'' @
         ''        WHERE countrycode IS NOT NULL\<newline>'' @
         ''        GROUP BY countrycode \<newline>'' @
         ''        ORDER BY distinct_species_count DESC \<newline>'' @
         ''        LIMIT '' @ fmt_limit limit @ ''\<newline>'' @
         ''        '')"

subsection \<open>\<open>query_gbif_with_filter\<close>\<close>

definition filter_s3_path :: "string \<Rightarrow> string \<Rightarrow> string" where
  "filter_s3_path region snapshot_date =
     ''s3://gbif-open-data-'' @ region @ ''/occurrence/'' @ snapshot_date @ ''/occurrence.parquet/*''"

definition filter_query ::
  "string \<Rightarrow> string \<Rightarrow> string option \<Rightarrow> string option \<Rightarrow> int option \<Rightarrow> string" where
  "filter_query snapshot_date region country_code species limit =
     (let s3_path = filter_s3_path region snapshot_date;
          query = ''SELECT * FROM read_parquet('' @ sq @ s3_path @ sq @ '') WHERE 1=1'';
          query = (if truthy_str country_code
                   then query @ '' AND countrycode = '' @ sq @ fmt_str country_code @ sq
                   else query);
          query = (if truthy_str species
                   then query @ '' AND species LIKE '' @ sq @ ''%'' @ fmt_str species @ ''%'' @ sq
                   else query);
          query = (if truthy_int limit then query @ '' LIMIT '' @ fmt_limit limit else query)
      in query)"

section \<open>The query of \<open>clickhouse_gbif.py\<close>\<close>

text \<open>The script has no parameters: the dataset address is a constant inside the query text.\<close>

definition clickhouse_url :: string where
  "clickhouse_url =
     ''https://gbif-open-data-eu-central-1.s3.eu-central-1.amazonaws.com/occurrence/2025-11-01/occurrence.parquet/*''"

definition clickhouse_script_query :: string where
  "clickhouse_script_query =
     ''\<newline>'' @
     ''SELECT countrycode, countDistinct(specieskey) AS distinct_species_count \<newline>'' @
     ''FROM s3('' @ sq @ clickhouse_url @ sq @ '', Parquet) \<newline>'' @
     ''GROUP BY countrycode \<newline>'' @
     ''ORDER BY distinct_species_count DESC \<newline>'' @
     ''LIMIT 10\<newline>''"

section \<open>Exceptions, tables, the console and engine sessions\<close>

text \<open>
  \<open>except Exception\<close> catches every instance of \<open>Exception\<close> and lets the other
  \<open>BaseException\<close>s (\<open>KeyboardInterrupt\<close>, \<open>SystemExit\<close>) pass. The argument is the
  text that \<open>str(e)\<close> gives.
\<close>

datatype py_exn = PyException string | PyBaseException string

fun exn_str :: "py_exn \<Rightarrow> string" where
  "exn_str (PyException msg) = msg"
| "exn_str (PyBaseException msg) = msg"

fun is_Exception :: "py_exn \<Rightarrow> bool" where
  "is_Exception (PyException msg) = True"
| "is_Exception (PyBaseException msg) = False"

text \<open>A pandas DataFrame; \<open>len(df)\<close> is the number of its rows.\<close>

record table =
  columns :: "string list"
  rows :: "string list list"

text \<open>How a call ends: \<open>Return None\<close> is the "no result" sentinel.\<close>

datatype 'a outcome = Return 'a | Raise py_exn

record session =
  is_open :: bool
  executed :: "string list"

text \<open>
  The part of the world the scripts act on: the lines printed so far (one entry per
  \<open>print\<close> call) and every engine session created so far, addressed by its index.
\<close>

record world =
  console :: "string list"
  sessions :: "session list"

text \<open>
  DuckDB itself is outside the repository. An engine says whether \<open>duckdb.connect()\<close>
  raises, and what \<open>conn.execute(sql)\<close> (followed by \<open>.df()\<close> where the script calls
  it) gives after the statements already executed in the session.
\<close>

record engine =
  connect_raises :: "py_exn option"
  run_stmt :: "string list \<Rightarrow> string \<Rightarrow> py_exn + table"

type_synonym 'a io = "world \<Rightarrow> (py_exn + 'a) \<times> world"

definition return_io :: "'a \<Rightarrow> 'a io" where
  "return_io x w = (Inr x, w)"

definition bind_io :: "'a io \<Rightarrow> ('a \<Rightarrow> 'b io) \<Rightarrow> 'b io" where
  "bind_io m f w = (case m w of (Inl e, w') \<Rightarrow> (Inl e, w') | (Inr x, w') \<Rightarrow> f x w')"

definition print_line :: "string \<Rightarrow> world \<Rightarrow> world" where
  "print_line line w = w\<lparr>console := console w @ [line]\<rparr>"

definition print_io :: "string \<Rightarrow> unit io" where
  "print_io line w = (Inr (), print_line line w)"

definition duckdb_connect :: "engine \<Rightarrow> nat io" where
  "duckdb_connect eng w =
     (case connect_raises eng of
        Some e \<Rightarrow> (Inl e, w)
      | None \<Rightarrow> (Inr (length (sessions w)),
                 w\<lparr>sessions := sessions w @ [\<lparr>is_open = True, executed = []\<rparr>]\<rparr>))"

definition conn_execute :: "engine \<Rightarrow> nat \<Rightarrow> string \<Rightarrow> table io" where
  "conn_execute eng conn sql w =
     (if conn < length (sessions w) \<and> is_open (sessions w ! conn)
      then (let s = sessions w ! conn
            in (run_stmt eng (executed s) sql,
                w\<lparr>sessions := (sessions w)[conn := s\<lparr>executed := executed s @ [sql]\<rparr>]\<rparr>))
      else (Inl (PyException ''Connection already closed''), w))"

definition conn_close :: "nat \<Rightarrow> world \<Rightarrow> world" where
  "conn_close conn w =
     (if conn < length (sessions w)
      then w\<lparr>sessions := (sessions w)[conn := (sessions w ! conn)\<lparr>is_open := False\<rparr>]\<rparr>
      else w)"

section \<open>The three functions of \<open>duck_gbif.py\<close>\<close>

text \<open>
  Each function is \<open>conn = duckdb.connect()\<close> followed by \<open>try / except Exception /
  finally conn.close()\<close>. The \<open>try\<close> body is an \<open>io\<close> action; the function handles its
  result and then closes the connection.
\<close>

definition read_try :: "engine \<Rightarrow> nat \<Rightarrow> string \<Rightarrow> int option \<Rightarrow> table io" where
  "read_try eng conn snapshot_date limit =
     bind_io (conn_execute eng conn ''INSTALL httpfs;'') (\<lambda>_.
     bind_io (conn_execute eng conn ''LOAD httpfs;'') (\<lambda>_.
     bind_io (conn_execute eng conn (''SET s3_region='' @ sq @ ''us-east-1'' @ sq @ '';'')) (\<lambda>_.
     bind_io (conn_execute eng conn (read_query snapshot_date limit)) (\<lambda>result.
     bind_io (print_io (''Successfully read '' @ str_nat (length (rows result)) @
                        '' rows from GBIF'')) (\<lambda>_.
     return_io result)))))"

definition read_except :: "py_exn \<Rightarrow> world \<Rightarrow> world" where
  "read_except e w =
     print_line ''3. Verify the S3 path is correct''
      (print_line ''2. Check your internet connection''
        (print_line (''1. Ensure the snapshot date exists (e.g., '' @ sq @ ''2023-06-01'' @ sq @
                     '', '' @ sq @ ''2024-01-01'' @ sq @ '')'')
          (print_line ''\<newline>Troubleshooting tips:''
            (print_line (''Error reading from S3: '' @ exn_str e) w))))"

definition read_gbif_from_s3 ::
  "engine \<Rightarrow> string \<Rightarrow> int option \<Rightarrow> world \<Rightarrow> table option outcome \<times> world" where
  "read_gbif_from_s3 eng snapshot_date limit w =
     (case duckdb_connect eng w of
        (Inl e, w0) \<Rightarrow> (Raise e, w0)
      | (Inr conn, w0) \<Rightarrow>
          (case read_try eng conn snapshot_date limit w0 of
             (Inr result, w1) \<Rightarrow> (Return (Some result), conn_close conn w1)
           | (Inl e, w1) \<Rightarrow>
               if is_Exception e then (Return None, conn_close conn (read_except e w1))
               else (Raise e, conn_close conn w1)))"

definition top_try :: "engine \<Rightarrow> nat \<Rightarrow> string \<Rightarrow> string \<Rightarrow> int option \<Rightarrow> table io" where
  "top_try eng conn snapshot_date region limit =
     bind_io (conn_execute eng conn ''INSTALL httpfs;'') (\<lambda>_.
     bind_io (conn_execute eng conn ''LOAD httpfs;'') (\<lambda>_.
     bind_io (conn_execute eng conn (''SET s3_region='' @ sq @ region @ sq @ '';'')) (\<lambda>_.
     bind_io (print_io (''Querying GBIF data from '' @ region @ ''...'')) (\<lambda>_.
     bind_io (conn_execute eng conn (top_query snapshot_date region limit)) (\<lambda>result.
     bind_io (print_io (''\<newline>Top '' @ fmt_limit limit @
                        '' countries by distinct species count:'')) (\<lambda>_.
     return_io result))))))"

definition top_except :: "string \<Rightarrow> string \<Rightarrow> py_exn \<Rightarrow> world \<Rightarrow> world" where
  "top_except snapshot_date region e w =
     print_line ''3. Ensure internet connection is stable''
      (print_line (''2. Check region '' @ sq @ region @ sq @
                   '' is correct (us-east-1 or eu-central-1)'')
        (print_line (''1. Verify snapshot date '' @ sq @ snapshot_date @ sq @ '' exists'')
          (print_line ''\<newline>Troubleshooting tips:''
            (print_line (''Error querying S3: '' @ exn_str e) w))))"

definition get_top_countries_by_species ::
  "engine \<Rightarrow> string \<Rightarrow> string \<Rightarrow> int option \<Rightarrow> world \<Rightarrow> table option outcome \<times> world" where
  "get_top_countries_by_species eng snapshot_date region limit w =
     (case duckdb_connect eng w of
        (Inl e, w0) \<Rightarrow> (Raise e, w0)
      | (Inr conn, w0) \<Rightarrow>
          (case top_try eng conn snapshot_date region limit w0 of
             (Inr result, w1) \<Rightarrow> (Return (Some result), conn_close conn w1)
           | (Inl e, w1) \<Rightarrow>
               if is_Exception e
               then (Return None, conn_close conn (top_except snapshot_date region e w1))
               else (Raise e, conn_close conn w1)))"

definition filter_try ::
  "engine \<Rightarrow> nat \<Rightarrow> string \<Rightarrow> string \<Rightarrow> string option \<Rightarrow> string option \<Rightarrow> int option \<Rightarrow>
   table io" where
  "filter_try eng conn snapshot_date region country_code species limit =
     bind_io (conn_execute eng conn ''INSTALL httpfs;'') (\<lambda>_.
     bind_io (conn_execute eng conn ''LOAD httpfs;'') (\<lambda>_.
     bind_io (conn_execute eng conn (''SET s3_region='' @ sq @ region @ sq @ '';'')) (\<lambda>_.
     bind_io (conn_execute eng conn
                (filter_query snapshot_date region country_code species limit)) (\<lambda>result.
     bind_io (print_io (''Query returned '' @ str_nat (length (rows result)) @ '' rows'')) (\<lambda>_.
     return_io result)))))"

definition filter_except :: "py_exn \<Rightarrow> world \<Rightarrow> world" where
  "filter_except e w = print_line (''Error: '' @ exn_str e) w"

definition query_gbif_with_filter ::
  "engine \<Rightarrow> string \<Rightarrow> string \<Rightarrow> string option \<Rightarrow> string option \<Rightarrow> int option \<Rightarrow> world \<Rightarrow>
   table option outcome \<times> world" where
  "query_gbif_with_filter eng snapshot_date region country_code species limit w =
     (case duckdb_connect eng w of
        (Inl e, w0) \<Rightarrow> (Raise e, w0)
      | (Inr conn, w0) \<Rightarrow>
          (case filter_try eng conn snapshot_date region country_code species limit w0 of
             (Inr result, w1) \<Rightarrow> (Return (Some result), conn_close conn w1)
           | (Inl e, w1) \<Rightarrow>
               if is_Exception e then (Return None, conn_close conn (filter_except e w1))
               else (Raise e, conn_close conn w1)))"

section \<open>\<open>clickhouse_query\<close> of \<open>clickhouse_gbif.py\<close>\<close>

text \<open>What \<open>subprocess.run(cmd, capture_output=True, text=True)\<close> returns.\<close>

record completed_process =
  returncode :: int
  stdout :: string
  stderr :: string

text \<open>
  \<open>subprocess.run\<close> and \<open>pandas.read_csv\<close> are outside the repository and are parameters:
  \<open>run\<close> maps the argument vector to the finished process (or raises, when the
  executable cannot be started), \<open>read_csv\<close> parses the captured output or raises.
\<close>

definition clickhouse_cmd :: "string \<Rightarrow> string list" where
  "clickhouse_cmd query = [''./clickhouse'', ''local'', ''-q'', query, ''--format'', ''CSVWithNames'']"

definition clickhouse_query ::
  "(string list \<Rightarrow> py_exn + completed_process) \<Rightarrow> (string \<Rightarrow> py_exn + table) \<Rightarrow> string \<Rightarrow>
   world \<Rightarrow> table option outcome \<times> world" where
  "clickhouse_query run read_csv query w =
     (let cmd = clickhouse_cmd query
      in case run cmd of
           Inl e \<Rightarrow> (Raise e, w)
         | Inr result \<Rightarrow>
             if returncode result = 0
             then (case read_csv (stdout result) of
                     Inl e \<Rightarrow> (Raise e, w)
                   | Inr df \<Rightarrow> (Return (Some df), w))
             else (Return None, print_line (''Error: '' @ stderr result) w))"

section \<open>Reading a query as a sequence of words\<close>

text \<open>
  SQL does not distinguish a space from a line break: the clauses of a query are read
  off its sequence of blank-separated words.
\<close>

definition is_blank :: "char \<Rightarrow> bool" where
  "is_blank c = (c = CHR '' '' \<or> c = CHR ''\<newline>'' \<or> c = CHR 0x09 \<or> c = CHR 0x0D)"

fun sql_words_from :: "string \<Rightarrow> string \<Rightarrow> string list" where
  "sql_words_from acc [] = (if acc = [] then [] else [acc])"
| "sql_words_from acc (c # cs) =
     (if is_blank c then (if acc = [] then [] else [acc]) @ sql_words_from [] cs
      else sql_words_from (acc @ [c]) cs)"

definition sql_words :: "string \<Rightarrow> string list" where
  "sql_words s = sql_words_from [] s"

text \<open>The path template as the specification writes it.\<close>

definition spec_path_template :: "string \<Rightarrow> string \<Rightarrow> string \<Rightarrow> string" where
  "spec_path_template scheme region snapshot_date =
     scheme @ ''://gbif-open-data-'' @ region @ ''/occurrence/'' @ snapshot_date @
     ''/occurrence.parquet/*''"

text \<open>Occurrences of a piece of text in a string, counted by starting position.\<close>

fun starts_with :: "string \<Rightarrow> string \<Rightarrow> bool" where
  "starts_with [] s = True"
| "starts_with (p # ps) [] = False"
| "starts_with (p # ps) (c # cs) = (p = c \<and> starts_with ps cs)"

fun count_sub :: "string \<Rightarrow> string \<Rightarrow> nat" where
  "count_sub p [] = (if p = [] then 1 else 0)"
| "count_sub p (c # cs) = (if starts_with p (c # cs) then 1 else 0) + count_sub p cs"

section \<open>Observing a call: sessions left open and the first failing statement\<close>

definition open_flags :: "world \<Rightarrow> bool list" where
  "open_flags w = map is_open (sessions w)"

text \<open>
  The statements each function sends to its session, in the order of the source, and
  the first exception the engine raises on them in a fresh session, if any.
\<close>

definition setup_stmts :: "string \<Rightarrow> string list" where
  "setup_stmts region =
     [''INSTALL httpfs;'', ''LOAD httpfs;'', ''SET s3_region='' @ sq @ region @ sq @ '';'']"

definition read_stmts :: "string \<Rightarrow> int option \<Rightarrow> string list" where
  "read_stmts snapshot_date limit = setup_stmts ''us-east-1'' @ [read_query snapshot_date limit]"

definition top_stmts :: "string \<Rightarrow> string \<Rightarrow> int option \<Rightarrow> string list" where
  "top_stmts snapshot_date region limit =
     setup_stmts region @ [top_query snapshot_date region limit]"

definition filter_stmts ::
  "string \<Rightarrow> string \<Rightarrow> string option \<Rightarrow> string option \<Rightarrow> int option \<Rightarrow> string list" where
  "filter_stmts snapshot_date region country_code species limit =
     setup_stmts region @ [filter_query snapshot_date region country_code species limit]"

fun first_raise ::
  "(string list \<Rightarrow> string \<Rightarrow> py_exn + table) \<Rightarrow> string list \<Rightarrow> string list \<Rightarrow> py_exn option" where
  "first_raise run hist [] = None"
| "first_raise run hist (sql # rest) =
     (case run hist sql of Inl e \<Rightarrow> Some e | Inr _ \<Rightarrow> first_raise run (hist @ [sql]) rest)"

section \<open>Sample engines and processes\<close>

definition sample_table :: table where
  "sample_table =
     \<lparr>columns = [''countrycode'', ''distinct_species_count''],
      rows = [[''US'', ''1200''], [''GB'', ''800'']]\<rparr>"

definition world0 :: world where
  "world0 = \<lparr>console = [], sessions = []\<rparr>"

text \<open>An engine on which every statement succeeds.\<close>

definition engine_ok :: engine where
  "engine_ok = \<lparr>connect_raises = None, run_stmt = (\<lambda>hist sql. Inr sample_table)\<rparr>"

text \<open>An engine whose fourth statement, the query itself, fails: the storage is unreachable.\<close>

definition engine_storage_down :: engine where
  "engine_storage_down =
     \<lparr>connect_raises = None,
      run_stmt = (\<lambda>hist sql. if length hist = 3 then Inl (PyException ''IO Error: HTTP 404'')
                              else Inr sample_table)\<rparr>"

text \<open>An engine interrupted from the keyboard while the query runs.\<close>

definition engine_interrupted :: engine where
  "engine_interrupted =
     \<lparr>connect_raises = None,
      run_stmt = (\<lambda>hist sql. if length hist = 3 then Inl (PyBaseException ''KeyboardInterrupt'')
                              else Inr sample_table)\<rparr>"

text \<open>A process that exits with status 62 and an error text, and one that exits with
  status 0 and prints nothing; a parser that, like pandas, rejects empty input.\<close>

definition run_exit_62 :: "string list \<Rightarrow> py_exn + completed_process" where
  "run_exit_62 cmd = Inr \<lparr>returncode = 62, stdout = [], stderr = ''Code: 62. Syntax error''\<rparr>"

definition run_exit_0_empty :: "string list \<Rightarrow> py_exn + completed_process" where
  "run_exit_0_empty cmd = Inr \<lparr>returncode = 0, stdout = [], stderr = []\<rparr>"

definition read_csv_sample :: "string \<Rightarrow> py_exn + table" where
  "read_csv_sample text =
     (if text = [] then Inl (PyException ''No columns to parse from file'')
      else Inr sample_table)"

section \<open>The text of the queries\<close>

lemma str_int_5: "str_int 5 = ''5''"
  by (simp add: str_int_def str_nat.simps digit_char_def)

lemma str_int_10: "str_int 10 = ''10''"
  by (simp add: str_int_def str_nat.simps digit_char_def)

text \<open>
  C1, as the code has it. \<open>get_top_countries_by_species\<close> and \<open>query_gbif_with_filter\<close>
  build exactly the template \<open>s3://gbif-open-data-<region>/occurrence/<snapshot_date>/occurrence.parquet/*\<close>
  from their \<open>region\<close> and \<open>snapshot_date\<close>, both spliced in unchanged.
  \<open>read_gbif_from_s3\<close> has no region parameter: it builds the template with the region
  fixed to \<open>us-east-1\<close>. The ClickHouse script has no parameters: its address is a
  constant with the host suffix \<open>.s3.eu-central-1.amazonaws.com\<close> after the bucket name.
\<close>

theorem storage_path_template:
  "top_s3_path region snapshot_date = spec_path_template ''s3'' region snapshot_date \<and>
   filter_s3_path region snapshot_date = spec_path_template ''s3'' region snapshot_date \<and>
   read_s3_path snapshot_date = spec_path_template ''s3'' ''us-east-1'' snapshot_date \<and>
   clickhouse_url =
     ''https://gbif-open-data-'' @ ''eu-central-1'' @ ''.s3.eu-central-1.amazonaws.com'' @
     ''/occurrence/'' @ ''2025-11-01'' @ ''/occurrence.parquet/*''"
  by (simp add: top_s3_path_def filter_s3_path_def read_s3_path_def spec_path_template_def
      clickhouse_url_def)

text \<open>
  The template does not describe every path of the repository: the address in the
  ClickHouse query is not the template at its region and date, and \<open>read_gbif_from_s3\<close>
  does not follow a region other than \<open>us-east-1\<close>.
\<close>

theorem storage_path_template_fails:
  "clickhouse_url \<noteq> spec_path_template ''https'' ''eu-central-1'' ''2025-11-01'' \<and>
   read_s3_path ''2025-10-01'' \<noteq> spec_path_template ''s3'' ''eu-central-1'' ''2025-10-01''"
  by (simp add: clickhouse_url_def read_s3_path_def spec_path_template_def)

text \<open>
  C2, as the code has it. With \<open>country_code = "US"\<close> and \<open>species = None\<close> the
  filtered-scan query is the base query followed by the single condition
  \<open>AND countrycode = 'US'\<close> (and the limit clause, if any): no species condition is
  appended, and with the default date and region the word \<open>species\<close> does not occur in it
  at all. With a non-empty \<open>country_code\<close> and a non-empty \<open>species\<close> both conditions are
  appended with \<open>AND\<close>, the country code first, the \<open>LIKE\<close> condition second. The guards
  are truthiness tests: an empty string is treated like \<open>None\<close> and appends no condition.
\<close>

theorem filter_conditions:
  "filter_query snapshot_date region (Some ''US'') None limit =
     ''SELECT * FROM read_parquet('' @ sq @ filter_s3_path region snapshot_date @ sq @
     '') WHERE 1=1'' @ '' AND countrycode = '' @ sq @ ''US'' @ sq @
     (if truthy_int limit then '' LIMIT '' @ fmt_limit limit else []) \<and>
   count_sub ''species''
     (filter_query ''2025-10-01'' ''eu-central-1'' (Some ''US'') None None) = 0 \<and>
   (c \<noteq> [] \<and> s \<noteq> [] \<longrightarrow>
     filter_query snapshot_date region (Some c) (Some s) limit =
       ''SELECT * FROM read_parquet('' @ sq @ filter_s3_path region snapshot_date @ sq @
       '') WHERE 1=1'' @ '' AND countrycode = '' @ sq @ c @ sq @
       '' AND species LIKE '' @ sq @ ''%'' @ s @ ''%'' @ sq @
       (if truthy_int limit then '' LIMIT '' @ fmt_limit limit else [])) \<and>
   filter_query snapshot_date region (Some []) species limit =
     filter_query snapshot_date region None species limit \<and>
   filter_query snapshot_date region country_code (Some []) limit =
     filter_query snapshot_date region country_code None limit"
proof -
  have one: "filter_query snapshot_date region (Some ''US'') None limit =
     ''SELECT * FROM read_parquet('' @ sq @ filter_s3_path region snapshot_date @ sq @
     '') WHERE 1=1'' @ '' AND countrycode = '' @ sq @ ''US'' @ sq @
     (if truthy_int limit then '' LIMIT '' @ fmt_limit limit else [])"
    by (simp add: filter_query_def truthy_str_def fmt_str_def)
  have none: "count_sub ''species''
     (filter_query ''2025-10-01'' ''eu-central-1'' (Some ''US'') None None) = 0"
    by (simp add: filter_query_def filter_s3_path_def truthy_str_def truthy_int_def fmt_str_def)
  have both: "c \<noteq> [] \<and> s \<noteq> [] \<longrightarrow>
     filter_query snapshot_date region (Some c) (Some s) limit =
       ''SELECT * FROM read_parquet('' @ sq @ filter_s3_path region snapshot_date @ sq @
       '') WHERE 1=1'' @ '' AND countrycode = '' @ sq @ c @ sq @
       '' AND species LIKE '' @ sq @ ''%'' @ s @ ''%'' @ sq @
       (if truthy_int limit then '' LIMIT '' @ fmt_limit limit else [])"
    by (simp add: filter_query_def truthy_str_def fmt_str_def)
  have empty_code: "filter_query snapshot_date region (Some []) species limit =
      filter_query snapshot_date region None species limit"
    by (simp add: filter_query_def truthy_str_def)
  have empty_species: "filter_query snapshot_date region country_code (Some []) limit =
      filter_query snapshot_date region country_code None limit"
    by (simp add: filter_query_def truthy_str_def)
  from one none both empty_code empty_species show ?thesis by blast
qed

theorem filter_conditions_witness:
  "''GB'' \<noteq> [] \<and> ''Puma'' \<noteq> [] \<and>
   filter_query ''2025-10-01'' ''eu-central-1'' (Some ''GB'') (Some ''Puma'') (Some 5) =
     ''SELECT * FROM read_parquet('' @ sq @
     ''s3://gbif-open-data-eu-central-1/occurrence/2025-10-01/occurrence.parquet/*'' @ sq @
     '') WHERE 1=1 AND countrycode = '' @ sq @ ''GB'' @ sq @
     '' AND species LIKE '' @ sq @ ''%Puma%'' @ sq @ '' LIMIT 5''"
  using filter_conditions [of "''2025-10-01''" "''eu-central-1''" "Some 5" "''GB''" "''Puma''"]
  by (simp add: filter_s3_path_def truthy_int_def fmt_limit_def str_int_5)

text \<open>
  A filter that is supplied as the empty string is dropped: with \<open>country_code = "US"\<close>
  and \<open>species = ""\<close> the query has the country-code condition only, which is not the text
  with both conditions appended.
\<close>

theorem empty_species_is_dropped:
  "filter_query ''2025-10-01'' ''eu-central-1'' (Some ''US'') (Some []) None =
     ''SELECT * FROM read_parquet('' @ sq @
     ''s3://gbif-open-data-eu-central-1/occurrence/2025-10-01/occurrence.parquet/*'' @ sq @
     '') WHERE 1=1 AND countrycode = '' @ sq @ ''US'' @ sq \<and>
   filter_query ''2025-10-01'' ''eu-central-1'' (Some ''US'') (Some []) None \<noteq>
     ''SELECT * FROM read_parquet('' @ sq @
     ''s3://gbif-open-data-eu-central-1/occurrence/2025-10-01/occurrence.parquet/*'' @ sq @
     '') WHERE 1=1 AND countrycode = '' @ sq @ ''US'' @ sq @
     '' AND species LIKE '' @ sq @ ''%'' @ [] @ ''%'' @ sq \<and>
   count_sub ''species''
     (filter_query ''2025-10-01'' ''eu-central-1'' (Some ''US'') (Some []) None) = 0"
  by (simp add: filter_query_def filter_s3_path_def truthy_str_def truthy_int_def fmt_str_def)

text \<open>
  C3. With \<open>limit = None\<close> the unfiltered-scan and the filtered-scan query end where the
  scan (and its conditions) end: no limit clause is appended. With \<open>limit = 5\<close> each is the
  \<open>limit = None\<close> query followed by \<open>LIMIT 5\<close>, once. With the default arguments the text
  \<open>LIMIT\<close> occurs in the query not at all, and exactly once.
\<close>

theorem limit_clause:
  "read_query snapshot_date None =
     ''SELECT * FROM read_parquet('' @ sq @ read_s3_path snapshot_date @ sq @ '')'' \<and>
   read_query snapshot_date (Some 5) = read_query snapshot_date None @ '' LIMIT 5'' \<and>
   filter_query snapshot_date region country_code species None =
     ''SELECT * FROM read_parquet('' @ sq @ filter_s3_path region snapshot_date @ sq @
     '') WHERE 1=1'' @
     (if truthy_str country_code then '' AND countrycode = '' @ sq @ fmt_str country_code @ sq
      else []) @
     (if truthy_str species
      then '' AND species LIKE '' @ sq @ ''%'' @ fmt_str species @ ''%'' @ sq else []) \<and>
   filter_query snapshot_date region country_code species (Some 5) =
     filter_query snapshot_date region country_code species None @ '' LIMIT 5'' \<and>
   count_sub ''LIMIT'' (read_query ''2025-10-01'' None) = 0 \<and>
   count_sub ''LIMIT'' (read_query ''2025-10-01'' (Some 5)) = 1 \<and>
   count_sub ''LIMIT'' (filter_query ''2025-10-01'' ''eu-central-1'' None None None) = 0 \<and>
   count_sub ''LIMIT'' (filter_query ''2025-10-01'' ''eu-central-1'' None None (Some 5)) = 1"
proof -
  have appended:
    "read_query snapshot_date None =
       ''SELECT * FROM read_parquet('' @ sq @ read_s3_path snapshot_date @ sq @ '')''"
    "read_query snapshot_date (Some 5) = read_query snapshot_date None @ '' LIMIT 5''"
    "filter_query snapshot_date region country_code species None =
       ''SELECT * FROM read_parquet('' @ sq @ filter_s3_path region snapshot_date @ sq @
       '') WHERE 1=1'' @
       (if truthy_str country_code then '' AND countrycode = '' @ sq @ fmt_str country_code @ sq
        else []) @
       (if truthy_str species
        then '' AND species LIKE '' @ sq @ ''%'' @ fmt_str species @ ''%'' @ sq else [])"
    "filter_query snapshot_date region country_code species (Some 5) =
       filter_query snapshot_date region country_code species None @ '' LIMIT 5''"
    by (simp_all add: read_query_def filter_query_def truthy_int_def fmt_limit_def str_int_5
        Let_def)
  have counted:
    "count_sub ''LIMIT'' (read_query ''2025-10-01'' None) = 0"
    "count_sub ''LIMIT'' (read_query ''2025-10-01'' (Some 5)) = 1"
    "count_sub ''LIMIT'' (filter_query ''2025-10-01'' ''eu-central-1'' None None None) = 0"
    "count_sub ''LIMIT'' (filter_query ''2025-10-01'' ''eu-central-1'' None None (Some 5)) = 1"
    by (simp_all add: read_query_def read_s3_path_def filter_query_def filter_s3_path_def
        truthy_int_def truthy_str_def fmt_limit_def str_int_5)
  from appended counted show ?thesis by blast
qed

text \<open>
  C9. The guard \<open>if limit:\<close> is a truthiness test: with \<open>limit = 0\<close> the unfiltered-scan
  query is the bare scan and the filtered-scan query ends with its conditions, so no
  limit clause is appended and all rows are requested. The query text, and with it the
  whole call, is the same as with \<open>limit = None\<close>; with the default arguments the text
  \<open>LIMIT\<close> does not occur in either query.
\<close>

theorem limit_zero_is_none:
  "read_query snapshot_date (Some 0) =
     ''SELECT * FROM read_parquet('' @ sq @ read_s3_path snapshot_date @ sq @ '')'' \<and>
   filter_query snapshot_date region country_code species (Some 0) =
     ''SELECT * FROM read_parquet('' @ sq @ filter_s3_path region snapshot_date @ sq @
     '') WHERE 1=1'' @
     (if truthy_str country_code then '' AND countrycode = '' @ sq @ fmt_str country_code @ sq
      else []) @
     (if truthy_str species
      then '' AND species LIKE '' @ sq @ ''%'' @ fmt_str species @ ''%'' @ sq else []) \<and>
   count_sub ''LIMIT'' (read_query ''2025-10-01'' (Some 0)) = 0 \<and>
   count_sub ''LIMIT'' (filter_query ''2025-10-01'' ''eu-central-1'' None None (Some 0)) = 0 \<and>
   read_query snapshot_date (Some 0) = read_query snapshot_date None \<and>
   filter_query snapshot_date region country_code species (Some 0) =
     filter_query snapshot_date region country_code species None \<and>
   read_gbif_from_s3 eng snapshot_date (Some 0) w = read_gbif_from_s3 eng snapshot_date None w \<and>
   query_gbif_with_filter eng snapshot_date region country_code species (Some 0) w =
     query_gbif_with_filter eng snapshot_date region country_code species None w"
proof -
  have scan: "read_query snapshot_date (Some 0) =
      ''SELECT * FROM read_parquet('' @ sq @ read_s3_path snapshot_date @ sq @ '')''"
    by (simp add: read_query_def truthy_int_def)
  have filtered: "filter_query snapshot_date region country_code species (Some 0) =
      ''SELECT * FROM read_parquet('' @ sq @ filter_s3_path region snapshot_date @ sq @
      '') WHERE 1=1'' @
      (if truthy_str country_code then '' AND countrycode = '' @ sq @ fmt_str country_code @ sq
       else []) @
      (if truthy_str species
       then '' AND species LIKE '' @ sq @ ''%'' @ fmt_str species @ ''%'' @ sq else [])"
    by (simp add: filter_query_def truthy_int_def Let_def)
  have counted:
    "count_sub ''LIMIT'' (read_query ''2025-10-01'' (Some 0)) = 0"
    "count_sub ''LIMIT'' (filter_query ''2025-10-01'' ''eu-central-1'' None None (Some 0)) = 0"
    by (simp_all add: read_query_def read_s3_path_def filter_query_def filter_s3_path_def
        truthy_int_def truthy_str_def)
  have rq: "read_query snapshot_date (Some 0) = read_query snapshot_date None"
    by (simp add: read_query_def truthy_int_def)
  have fq: "filter_query snapshot_date region country_code species (Some 0) =
      filter_query snapshot_date region country_code species None"
    by (simp add: filter_query_def truthy_int_def)
  have rt: "read_try eng c snapshot_date (Some 0) = read_try eng c snapshot_date None" for c
    unfolding read_try_def rq ..
  have ft: "filter_try eng c snapshot_date region country_code species (Some 0) =
      filter_try eng c snapshot_date region country_code species None" for c
    unfolding filter_try_def fq ..
  have rg: "read_gbif_from_s3 eng snapshot_date (Some 0) w =
      read_gbif_from_s3 eng snapshot_date None w"
    unfolding read_gbif_from_s3_def rt ..
  have qg: "query_gbif_with_filter eng snapshot_date region country_code species (Some 0) w =
      query_gbif_with_filter eng snapshot_date region country_code species None w"
    unfolding query_gbif_with_filter_def ft ..
  from scan filtered counted rq fq rg qg show ?thesis by blast
qed

section \<open>The clauses of the aggregate query\<close>

lemma sql_words_from_blank:
  "is_blank c \<Longrightarrow> sql_words_from acc (a @ c # b) = sql_words_from acc a @ sql_words_from [] b"
  by (induction a arbitrary: acc) auto

lemma sql_words_blank: "is_blank c \<Longrightarrow> sql_words (a @ c # b) = sql_words a @ sql_words b"
  by (simp add: sql_words_def sql_words_from_blank)

lemma sql_words_from_solid:
  "\<forall>c \<in> set a. \<not> is_blank c \<Longrightarrow>
   sql_words_from acc a = (if acc @ a = [] then [] else [acc @ a])"
  by (induction a arbitrary: acc) auto

lemma digit_char_solid:
  assumes "d < 10"
  shows "\<not> is_blank (digit_char d)"
proof -
  from assms have "d \<in> {0, 1, 2, 3, 4, 5, 6, 7, 8, 9}" by auto
  then show ?thesis by (auto simp: digit_char_def is_blank_def)
qed

lemma str_nat_solid: "\<forall>c \<in> set (str_nat n). \<not> is_blank c"
proof (induction n rule: str_nat.induct)
  case (1 n)
  show ?case
  proof (cases "n < 10")
    case True
    then show ?thesis by (simp add: str_nat.simps [of n] digit_char_solid)
  next
    case False
    with 1 show ?thesis by (simp add: str_nat.simps [of n] digit_char_solid)
  qed
qed

lemma str_nat_nonempty: "str_nat n \<noteq> []"
  by (subst str_nat.simps) simp

lemma sql_words_str_int: "sql_words (str_int n) = [str_int n]"
proof -
  have "\<forall>c \<in> set (str_int n). \<not> is_blank c"
    using str_nat_solid by (auto simp: str_int_def is_blank_def)
  moreover have "str_int n \<noteq> []"
    by (simp add: str_int_def str_nat_nonempty)
  ultimately show ?thesis
    by (simp add: sql_words_def sql_words_from_solid)
qed

lemma sql_words_fmt_limit: "sql_words (fmt_limit l) = [fmt_limit l]"
proof (cases l)
  case None
  then show ?thesis by (simp add: fmt_limit_def sql_words_def is_blank_def)
next
  case (Some n)
  then show ?thesis by (simp add: fmt_limit_def sql_words_str_int)
qed

lemma sql_words_five:
  "sql_words (a @ CHR '' '' # b @ CHR ''\<newline>'' # c @ CHR '' '' # d @ CHR ''\<newline>'' # e) =
     sql_words a @ sql_words b @ sql_words c @ sql_words d @ sql_words e"
  by (simp add: sql_words_blank is_blank_def)

lemma top_query_split:
  "top_query d r l =
     (''\<newline>        SELECT \<newline>            countrycode, \<newline>            COUNT(DISTINCT specieskey) AS distinct_species_count \<newline>        FROM'')
     @ CHR '' '' # (''read_parquet('' @ sq @ top_s3_path r d @ sq @ '')'')
     @ CHR ''\<newline>'' # (''        WHERE countrycode IS NOT NULL\<newline>        GROUP BY countrycode \<newline>        ORDER BY distinct_species_count DESC \<newline>        LIMIT'')
     @ CHR '' '' # fmt_limit l @ CHR ''\<newline>'' # ''        ''"
  by (simp add: top_query_def)

lemma top_query_words:
  "sql_words (top_query d r l) =
     [''SELECT'', ''countrycode,'', ''COUNT(DISTINCT'', ''specieskey)'', ''AS'',
      ''distinct_species_count'', ''FROM''] @
     sql_words (''read_parquet('' @ sq @ top_s3_path r d @ sq @ '')'') @
     [''WHERE'', ''countrycode'', ''IS'', ''NOT'', ''NULL'', ''GROUP'', ''BY'', ''countrycode'',
      ''ORDER'', ''BY'', ''distinct_species_count'', ''DESC'', ''LIMIT'', fmt_limit l]"
proof -
  have w1: "sql_words (''\<newline>        SELECT \<newline>            countrycode, \<newline>            COUNT(DISTINCT specieskey) AS distinct_species_count \<newline>        FROM'')
      = [''SELECT'', ''countrycode,'', ''COUNT(DISTINCT'', ''specieskey)'', ''AS'',
         ''distinct_species_count'', ''FROM'']"
    by (simp add: sql_words_def is_blank_def)
  have w2: "sql_words (''        WHERE countrycode IS NOT NULL\<newline>        GROUP BY countrycode \<newline>        ORDER BY distinct_species_count DESC \<newline>        LIMIT'')
      = [''WHERE'', ''countrycode'', ''IS'', ''NOT'', ''NULL'', ''GROUP'', ''BY'', ''countrycode'',
         ''ORDER'', ''BY'', ''distinct_species_count'', ''DESC'', ''LIMIT'']"
    by (simp add: sql_words_def is_blank_def)
  have w3: "sql_words ''        '' = []"
    by (simp add: sql_words_def is_blank_def)
  have "sql_words (top_query d r l) =
      sql_words (''\<newline>        SELECT \<newline>            countrycode, \<newline>            COUNT(DISTINCT specieskey) AS distinct_species_count \<newline>        FROM'') @
      sql_words (''read_parquet('' @ sq @ top_s3_path r d @ sq @ '')'') @
      sql_words (''        WHERE countrycode IS NOT NULL\<newline>        GROUP BY countrycode \<newline>        ORDER BY distinct_species_count DESC \<newline>        LIMIT'') @
      sql_words (fmt_limit l) @ sql_words ''        ''"
    unfolding top_query_split by (rule sql_words_five)
  then show ?thesis
    by (simp only: w1 w2 w3 sql_words_fmt_limit append_Nil2 append_Cons append_Nil append_assoc)
qed

lemma clickhouse_words:
  "sql_words clickhouse_script_query =
     [''SELECT'', ''countrycode,'', ''countDistinct(specieskey)'', ''AS'',
      ''distinct_species_count'', ''FROM'', ''s3('' @ sq @ clickhouse_url @ sq @ '','',
      ''Parquet)'', ''GROUP'', ''BY'', ''countrycode'', ''ORDER'', ''BY'',
      ''distinct_species_count'', ''DESC'', ''LIMIT'', ''10'']"
  by (simp add: clickhouse_script_query_def clickhouse_url_def sql_words_def is_blank_def)

text \<open>
  C4, as the code has it. Read as a sequence of words, the query of
  \<open>get_top_countries_by_species\<close> for an integer \<open>limit\<close> selects \<open>countrycode\<close> and
  \<open>COUNT(DISTINCT specieskey)\<close>, keeps the rows \<open>WHERE countrycode IS NOT NULL\<close>, groups by
  \<open>countrycode\<close>, orders by the count descending and ends with \<open>LIMIT <limit>\<close>, which
  for \<open>limit = 10\<close> is \<open>LIMIT 10\<close>. The ClickHouse query selects \<open>countrycode\<close> and
  \<open>countDistinct(specieskey)\<close>, groups, orders descending and ends with \<open>LIMIT 10\<close>; it has
  no condition on \<open>countrycode\<close>.
\<close>

theorem aggregate_top_n_clauses:
  "sql_words (top_query snapshot_date region (Some n)) =
     [''SELECT'', ''countrycode,'', ''COUNT(DISTINCT'', ''specieskey)'', ''AS'',
      ''distinct_species_count'', ''FROM''] @
     sql_words (''read_parquet('' @ sq @ top_s3_path region snapshot_date @ sq @ '')'') @
     [''WHERE'', ''countrycode'', ''IS'', ''NOT'', ''NULL'', ''GROUP'', ''BY'', ''countrycode'',
      ''ORDER'', ''BY'', ''distinct_species_count'', ''DESC'', ''LIMIT'', str_int n] \<and>
   str_int 10 = ''10'' \<and>
   sql_words clickhouse_script_query =
     [''SELECT'', ''countrycode,'', ''countDistinct(specieskey)'', ''AS'',
      ''distinct_species_count'', ''FROM'', ''s3('' @ sq @ clickhouse_url @ sq @ '','',
      ''Parquet)'', ''GROUP'', ''BY'', ''countrycode'', ''ORDER'', ''BY'',
      ''distinct_species_count'', ''DESC'', ''LIMIT'', ''10'']"
  using top_query_words [of snapshot_date region "Some n"] clickhouse_words str_int_10
  by (simp add: fmt_limit_def)

text \<open>
  The ClickHouse query does not exclude the rows without a country code: it has no
  \<open>WHERE\<close> clause, and neither \<open>NOT\<close> nor \<open>NULL\<close> is among its words.
\<close>

theorem clickhouse_keeps_null_keys:
  "''WHERE'' \<notin> set (sql_words clickhouse_script_query) \<and>
   ''NOT'' \<notin> set (sql_words clickhouse_script_query) \<and>
   ''NULL'' \<notin> set (sql_words clickhouse_script_query)"
  by (simp add: clickhouse_words)


section \<open>The subprocess backend\<close>

text \<open>
  C5. Whatever the query, when the external process exits with a non-zero status,
  \<open>clickhouse_query\<close> prints \<open>Error:\<close> followed by the captured standard error and
  returns \<open>None\<close>; it raises nothing and changes nothing else.
\<close>

theorem clickhouse_nonzero_exit:
  assumes "run (clickhouse_cmd query) = Inr p" and "returncode p \<noteq> 0"
  shows "clickhouse_query run read_csv query w =
    (Return None, w\<lparr>console := console w @ [''Error: '' @ stderr p]\<rparr>)"
  using assms by (simp add: clickhouse_query_def print_line_def)

theorem clickhouse_nonzero_exit_witness:
  "run_exit_62 (clickhouse_cmd clickhouse_script_query) =
     Inr \<lparr>returncode = 62, stdout = [], stderr = ''Code: 62. Syntax error''\<rparr> \<and>
   returncode \<lparr>returncode = 62, stdout = [], stderr = ''Code: 62. Syntax error''\<rparr> \<noteq> 0 \<and>
   clickhouse_query run_exit_62 read_csv_sample clickhouse_script_query world0 =
     (Return None, \<lparr>console = [''Error: Code: 62. Syntax error''], sessions = []\<rparr>)"
  using clickhouse_nonzero_exit [of run_exit_62 clickhouse_script_query
      "\<lparr>returncode = 62, stdout = [], stderr = ''Code: 62. Syntax error''\<rparr>"
      read_csv_sample world0]
  by (simp add: run_exit_62_def world0_def)

text \<open>
  C8. When the process exits with status 0 and its output cannot be parsed,
  \<open>clickhouse_query\<close> raises the parser's exception to its caller: it prints no
  diagnostic and does not return the sentinel.
\<close>

theorem clickhouse_parse_failure_propagates:
  assumes "run (clickhouse_cmd query) = Inr p" and "returncode p = 0"
    and "read_csv (stdout p) = Inl e"
  shows "clickhouse_query run read_csv query w = (Raise e, w)"
  using assms by (simp add: clickhouse_query_def)

theorem clickhouse_parse_failure_propagates_witness:
  "run_exit_0_empty (clickhouse_cmd clickhouse_script_query) =
     Inr \<lparr>returncode = 0, stdout = [], stderr = []\<rparr> \<and>
   returncode \<lparr>returncode = 0, stdout = [], stderr = []\<rparr> = 0 \<and>
   read_csv_sample (stdout \<lparr>returncode = 0, stdout = [], stderr = []\<rparr>) =
     Inl (PyException ''No columns to parse from file'') \<and>
   clickhouse_query run_exit_0_empty read_csv_sample clickhouse_script_query world0 =
     (Raise (PyException ''No columns to parse from file''), world0)"
  using clickhouse_parse_failure_propagates [of run_exit_0_empty clickhouse_script_query
      "\<lparr>returncode = 0, stdout = [], stderr = []\<rparr>" read_csv_sample
      "PyException ''No columns to parse from file''" world0]
  by (simp add: run_exit_0_empty_def read_csv_sample_def)

section \<open>The embedded backend: sessions\<close>

lemma open_flags_execute: "open_flags (snd (conn_execute eng c sql w)) = open_flags w"
  by (simp add: conn_execute_def open_flags_def Let_def map_update list_update_same_conv)

lemma open_flags_print_line: "open_flags (print_line l w) = open_flags w"
  by (simp add: print_line_def open_flags_def)

lemma open_flags_print: "open_flags (snd (print_io l w)) = open_flags w"
  by (simp add: print_io_def open_flags_print_line)

lemma open_flags_return: "open_flags (snd (return_io x w)) = open_flags w"
  by (simp add: return_io_def)

lemma open_flags_bind:
  assumes "\<And>w. open_flags (snd (m w)) = open_flags w"
    and "\<And>x w. open_flags (snd (f x w)) = open_flags w"
  shows "open_flags (snd (bind_io m f w)) = open_flags w"
proof (cases "m w")
  case (Pair r w')
  with assms(1) [of w] have w': "open_flags w' = open_flags w" by simp
  show ?thesis
  proof (cases r)
    case (Inl e)
    with Pair w' show ?thesis by (simp add: bind_io_def)
  next
    case (Inr x)
    with Pair w' assms(2) [of x w'] show ?thesis by (simp add: bind_io_def)
  qed
qed

lemmas open_flags_io = open_flags_bind open_flags_execute open_flags_print open_flags_return

lemma open_flags_read_try: "open_flags (snd (read_try eng c d l w)) = open_flags w"
  unfolding read_try_def by (intro open_flags_io)

lemma open_flags_top_try: "open_flags (snd (top_try eng c d r l w)) = open_flags w"
  unfolding top_try_def by (intro open_flags_io)

lemma open_flags_filter_try:
  "open_flags (snd (filter_try eng c d r cc sp l w)) = open_flags w"
  unfolding filter_try_def by (intro open_flags_io)

lemma open_flags_close: "open_flags (conn_close c w) = (open_flags w)[c := False]"
  by (simp add: conn_close_def open_flags_def map_update list_update_beyond)

lemma connect_ok:
  "connect_raises eng = None \<Longrightarrow>
   duckdb_connect eng w =
     (Inr (length (sessions w)),
      w\<lparr>sessions := sessions w @ [\<lparr>is_open = True, executed = []\<rparr>]\<rparr>)"
  by (simp add: duckdb_connect_def)

lemma connect_raised: "connect_raises eng = Some e \<Longrightarrow> duckdb_connect eng w = (Inl e, w)"
  by (simp add: duckdb_connect_def)

lemma close_fresh:
  "open_flags w1 = open_flags w @ [True] \<Longrightarrow>
   open_flags (conn_close (length (sessions w)) w1) = open_flags w @ [False]"
proof -
  assume a: "open_flags w1 = open_flags w @ [True]"
  have n: "length (sessions w) = length (open_flags w)"
    by (simp add: open_flags_def)
  show ?thesis
    unfolding open_flags_close a n by simp
qed

text \<open>
  The shape shared by the three functions: connect, run a body that leaves the open
  flags alone, handle its result with prints only, close.
\<close>

lemma closes_session:
  assumes body: "\<And>c w. open_flags (snd (body c w)) = open_flags w"
    and handler: "\<And>e w. open_flags (handler e w) = open_flags w"
  shows "open_flags (snd
      (case duckdb_connect eng w of
         (Inl e, w0) \<Rightarrow> (Raise e, w0)
       | (Inr conn, w0) \<Rightarrow>
           (case body conn w0 of
              (Inr result, w1) \<Rightarrow> (Return (Some result), conn_close conn w1)
            | (Inl e, w1) \<Rightarrow>
                if is_Exception e then (Return None, conn_close conn (handler e w1))
                else (Raise e, conn_close conn w1)))) =
    open_flags w @ (case connect_raises eng of None \<Rightarrow> [False] | Some e \<Rightarrow> [])"
proof (cases "connect_raises eng")
  case (Some e)
  then show ?thesis by (simp add: connect_raised)
next
  case None
  let ?w0 = "w\<lparr>sessions := sessions w @ [\<lparr>is_open = True, executed = []\<rparr>]\<rparr>"
  let ?c = "length (sessions w)"
  have w0: "open_flags ?w0 = open_flags w @ [True]"
    by (simp add: open_flags_def)
  obtain r w1 where t: "body ?c ?w0 = (r, w1)"
    by (cases "body ?c ?w0")
  have w1: "open_flags w1 = open_flags w @ [True]"
    using body [of ?c ?w0] t w0 by simp
  then have w1e: "open_flags (handler e w1) = open_flags w @ [True]" for e
    by (simp add: handler)
  show ?thesis
    using None t close_fresh [OF w1] close_fresh [OF w1e]
    by (cases r) (simp_all add: connect_ok)
qed

text \<open>
  C7. Whatever the engine does, each of the three functions leaves the sessions that
  existed before the call as they were and leaves the one session it opened closed: on
  a normal return, when \<open>except Exception\<close> handles a failure, and when an exception that
  is not an \<open>Exception\<close> passes through. (When \<open>duckdb.connect()\<close> itself raises, no
  session was opened.)
\<close>

theorem session_always_closed:
  "open_flags (snd (read_gbif_from_s3 eng snapshot_date limit w)) =
     open_flags w @ (case connect_raises eng of None \<Rightarrow> [False] | Some e \<Rightarrow> []) \<and>
   open_flags (snd (get_top_countries_by_species eng snapshot_date region limit w)) =
     open_flags w @ (case connect_raises eng of None \<Rightarrow> [False] | Some e \<Rightarrow> []) \<and>
   open_flags (snd (query_gbif_with_filter eng snapshot_date region country_code species
       limit w)) =
     open_flags w @ (case connect_raises eng of None \<Rightarrow> [False] | Some e \<Rightarrow> [])"
proof -
  have r: "open_flags (snd (read_gbif_from_s3 eng snapshot_date limit w)) =
      open_flags w @ (case connect_raises eng of None \<Rightarrow> [False] | Some e \<Rightarrow> [])"
    unfolding read_gbif_from_s3_def
    by (rule closes_session) (simp_all add: open_flags_read_try read_except_def
        open_flags_print_line)
  have t: "open_flags (snd (get_top_countries_by_species eng snapshot_date region limit w)) =
      open_flags w @ (case connect_raises eng of None \<Rightarrow> [False] | Some e \<Rightarrow> [])"
    unfolding get_top_countries_by_species_def
    by (rule closes_session) (simp_all add: open_flags_top_try top_except_def
        open_flags_print_line)
  have f: "open_flags (snd (query_gbif_with_filter eng snapshot_date region country_code
        species limit w)) =
      open_flags w @ (case connect_raises eng of None \<Rightarrow> [False] | Some e \<Rightarrow> [])"
    unfolding query_gbif_with_filter_def
    by (rule closes_session) (simp_all add: open_flags_filter_try filter_except_def
        open_flags_print_line)
  from r t f show ?thesis by blast
qed

theorem session_always_closed_witness:
  "fst (get_top_countries_by_species engine_ok ''2025-10-01'' ''eu-central-1'' (Some 10) world0)
     = Return (Some sample_table) \<and>
   open_flags (snd (get_top_countries_by_species engine_ok ''2025-10-01'' ''eu-central-1''
     (Some 10) world0)) = [False] \<and>
   fst (read_gbif_from_s3 engine_storage_down ''2025-10-01'' (Some 10) world0) = Return None \<and>
   open_flags (snd (read_gbif_from_s3 engine_storage_down ''2025-10-01'' (Some 10) world0))
     = [False] \<and>
   fst (query_gbif_with_filter engine_interrupted ''2025-10-01'' ''eu-central-1'' (Some ''US'')
     None (Some 100) world0) = Raise (PyBaseException ''KeyboardInterrupt'') \<and>
   open_flags (snd (query_gbif_with_filter engine_interrupted ''2025-10-01'' ''eu-central-1''
     (Some ''US'') None (Some 100) world0)) = [False]"
proof -
  have a: "fst (get_top_countries_by_species engine_ok ''2025-10-01'' ''eu-central-1'' (Some 10)
      world0) = Return (Some sample_table)"
    by (simp add: get_top_countries_by_species_def duckdb_connect_def engine_ok_def world0_def
        top_try_def bind_io_def conn_execute_def print_io_def print_line_def return_io_def)
  have b: "fst (read_gbif_from_s3 engine_storage_down ''2025-10-01'' (Some 10) world0) =
      Return None"
    by (simp add: read_gbif_from_s3_def duckdb_connect_def engine_storage_down_def world0_def
        read_try_def bind_io_def conn_execute_def print_io_def print_line_def return_io_def)
  have c: "fst (query_gbif_with_filter engine_interrupted ''2025-10-01'' ''eu-central-1''
      (Some ''US'') None (Some 100) world0) = Raise (PyBaseException ''KeyboardInterrupt'')"
    by (simp add: query_gbif_with_filter_def duckdb_connect_def engine_interrupted_def world0_def
        filter_try_def bind_io_def conn_execute_def print_io_def print_line_def return_io_def)
  have e: "connect_raises engine_ok = None" "connect_raises engine_storage_down = None"
    "connect_raises engine_interrupted = None" "open_flags world0 = []"
    by (simp_all add: engine_ok_def engine_storage_down_def engine_interrupted_def world0_def
        open_flags_def)
  show ?thesis
    using session_always_closed [of engine_ok "''2025-10-01''" "Some 10" world0 "''eu-central-1''"]
      session_always_closed [of engine_storage_down "''2025-10-01''" "Some 10" world0]
      session_always_closed [of engine_interrupted "''2025-10-01''" "Some 100" world0
        "''eu-central-1''" "Some ''US''" None]
    by (simp add: a b c e)
qed

section \<open>The embedded backend: failures\<close>

lemma conn_execute_fresh:
  "conn_execute eng (length ss) sql (w\<lparr>sessions := ss @ [\<lparr>is_open = True, executed = h\<rparr>]\<rparr>) =
     (run_stmt eng h sql, w\<lparr>sessions := ss @ [\<lparr>is_open = True, executed = h @ [sql]\<rparr>]\<rparr>)"
  by (simp add: conn_execute_def)

lemma conn_execute_fresh_console:
  "conn_execute eng (length ss) sql
     (w\<lparr>sessions := ss @ [\<lparr>is_open = True, executed = h\<rparr>], console := out\<rparr>) =
     (run_stmt eng h sql,
      w\<lparr>sessions := ss @ [\<lparr>is_open = True, executed = h @ [sql]\<rparr>], console := out\<rparr>)"
  by (simp add: conn_execute_def)

lemma read_try_fails:
  assumes "first_raise (run_stmt eng) [] (read_stmts d l) = Some e"
  shows "fst (read_try eng (length ss) d l
            (w\<lparr>sessions := ss @ [\<lparr>is_open = True, executed = []\<rparr>]\<rparr>)) = Inl e \<and>
     console (snd (read_try eng (length ss) d l
            (w\<lparr>sessions := ss @ [\<lparr>is_open = True, executed = []\<rparr>]\<rparr>))) = console w"
  using assms unfolding read_stmts_def setup_stmts_def read_try_def
  by (cases "run_stmt eng [] ''INSTALL httpfs;''";
      cases "run_stmt eng [''INSTALL httpfs;''] ''LOAD httpfs;''";
      cases "run_stmt eng [''INSTALL httpfs;'', ''LOAD httpfs;'']
               (''SET s3_region='' @ sq @ ''us-east-1'' @ sq @ '';'')";
      cases "run_stmt eng [''INSTALL httpfs;'', ''LOAD httpfs;'',
               ''SET s3_region='' @ sq @ ''us-east-1'' @ sq @ '';''] (read_query d l)";
      simp add: bind_io_def conn_execute_fresh)

lemma top_try_fails:
  assumes "first_raise (run_stmt eng) [] (top_stmts d r l) = Some e"
  shows "fst (top_try eng (length ss) d r l
            (w\<lparr>sessions := ss @ [\<lparr>is_open = True, executed = []\<rparr>]\<rparr>)) = Inl e \<and>
     console (snd (top_try eng (length ss) d r l
            (w\<lparr>sessions := ss @ [\<lparr>is_open = True, executed = []\<rparr>]\<rparr>))) =
       console w @ (if first_raise (run_stmt eng) [] (setup_stmts r) = None
                    then [''Querying GBIF data from '' @ r @ ''...''] else [])"
  using assms unfolding top_stmts_def setup_stmts_def top_try_def
  by (cases "run_stmt eng [] ''INSTALL httpfs;''";
      cases "run_stmt eng [''INSTALL httpfs;''] ''LOAD httpfs;''";
      cases "run_stmt eng [''INSTALL httpfs;'', ''LOAD httpfs;'']
               (''SET s3_region='' @ sq @ r @ sq @ '';'')";
      cases "run_stmt eng [''INSTALL httpfs;'', ''LOAD httpfs;'',
               ''SET s3_region='' @ sq @ r @ sq @ '';''] (top_query d r l)";
      simp add: bind_io_def conn_execute_fresh conn_execute_fresh_console print_io_def
        print_line_def)

lemma filter_try_fails:
  assumes "first_raise (run_stmt eng) [] (filter_stmts d r cc sp l) = Some e"
  shows "fst (filter_try eng (length ss) d r cc sp l
            (w\<lparr>sessions := ss @ [\<lparr>is_open = True, executed = []\<rparr>]\<rparr>)) = Inl e \<and>
     console (snd (filter_try eng (length ss) d r cc sp l
            (w\<lparr>sessions := ss @ [\<lparr>is_open = True, executed = []\<rparr>]\<rparr>))) = console w"
  using assms unfolding filter_stmts_def setup_stmts_def filter_try_def
  by (cases "run_stmt eng [] ''INSTALL httpfs;''";
      cases "run_stmt eng [''INSTALL httpfs;''] ''LOAD httpfs;''";
      cases "run_stmt eng [''INSTALL httpfs;'', ''LOAD httpfs;'']
               (''SET s3_region='' @ sq @ r @ sq @ '';'')";
      cases "run_stmt eng [''INSTALL httpfs;'', ''LOAD httpfs;'',
               ''SET s3_region='' @ sq @ r @ sq @ '';''] (filter_query d r cc sp l)";
      simp add: bind_io_def conn_execute_fresh)

lemma console_close: "console (conn_close c w) = console w"
  by (simp add: conn_close_def)

text \<open>The shape shared by the three functions, on a failure that \<open>except Exception\<close> handles.\<close>

lemma handled_failure:
  assumes c: "connect_raises eng = None"
    and b: "fst (body (length (sessions w))
                  (w\<lparr>sessions := sessions w @ [\<lparr>is_open = True, executed = []\<rparr>]\<rparr>)) =
            Inl (PyException msg)"
  shows "(case duckdb_connect eng w of
         (Inl e, w0) \<Rightarrow> (Raise e, w0)
       | (Inr conn, w0) \<Rightarrow>
           (case body conn w0 of
              (Inr result, w1) \<Rightarrow> (Return (Some result), conn_close conn w1)
            | (Inl e, w1) \<Rightarrow>
                if is_Exception e then (Return None, conn_close conn (handler e w1))
                else (Raise e, conn_close conn w1))) =
     (Return None, conn_close (length (sessions w)) (handler (PyException msg)
        (snd (body (length (sessions w))
                  (w\<lparr>sessions := sessions w @ [\<lparr>is_open = True, executed = []\<rparr>]\<rparr>)))))"
proof -
  let ?w0 = "w\<lparr>sessions := sessions w @ [\<lparr>is_open = True, executed = []\<rparr>]\<rparr>"
  obtain x w1 where t: "body (length (sessions w)) ?w0 = (x, w1)"
    by (cases "body (length (sessions w)) ?w0")
  with b have "x = Inl (PyException msg)" by simp
  with t show ?thesis by (simp add: connect_ok [OF c])
qed

text \<open>
  C6, as the code has it. After a successful \<open>duckdb.connect()\<close>, when a statement of the
  \<open>try\<close> body raises an instance of \<open>Exception\<close> with text \<open>msg\<close>, each function returns
  \<open>None\<close> and raises nothing. \<open>read_gbif_from_s3\<close> prints \<open>Error reading from S3: msg\<close>, a
  header and three fixed hints. \<open>get_top_countries_by_species\<close> prints \<open>Error querying S3:
  msg\<close>, a header and three hints that quote its \<open>snapshot_date\<close> and \<open>region\<close> (after
  its progress line, when the failure is in the query).
  \<open>query_gbif_with_filter\<close> prints the single line \<open>Error: msg\<close> and no hints.
\<close>

theorem handled_failure_output:
  assumes "connect_raises eng = None"
  shows
  "(first_raise (run_stmt eng) [] (read_stmts snapshot_date limit) = Some (PyException msg) \<longrightarrow>
      fst (read_gbif_from_s3 eng snapshot_date limit w) = Return None \<and>
      console (snd (read_gbif_from_s3 eng snapshot_date limit w)) =
        console w @
        [''Error reading from S3: '' @ msg,
         ''\<newline>Troubleshooting tips:'',
         ''1. Ensure the snapshot date exists (e.g., '' @ sq @ ''2023-06-01'' @ sq @ '', '' @
           sq @ ''2024-01-01'' @ sq @ '')'',
         ''2. Check your internet connection'',
         ''3. Verify the S3 path is correct'']) \<and>
   (first_raise (run_stmt eng) [] (top_stmts snapshot_date region limit) =
      Some (PyException msg) \<longrightarrow>
      fst (get_top_countries_by_species eng snapshot_date region limit w) = Return None \<and>
      console (snd (get_top_countries_by_species eng snapshot_date region limit w)) =
        console w @
        (if first_raise (run_stmt eng) [] (setup_stmts region) = None
         then [''Querying GBIF data from '' @ region @ ''...''] else []) @
        [''Error querying S3: '' @ msg,
         ''\<newline>Troubleshooting tips:'',
         ''1. Verify snapshot date '' @ sq @ snapshot_date @ sq @ '' exists'',
         ''2. Check region '' @ sq @ region @ sq @ '' is correct (us-east-1 or eu-central-1)'',
         ''3. Ensure internet connection is stable'']) \<and>
   (first_raise (run_stmt eng) [] (filter_stmts snapshot_date region country_code species limit) =
      Some (PyException msg) \<longrightarrow>
      fst (query_gbif_with_filter eng snapshot_date region country_code species limit w) =
        Return None \<and>
      console (snd (query_gbif_with_filter eng snapshot_date region country_code species
        limit w)) = console w @ [''Error: '' @ msg])"
proof (intro conjI impI)
  assume f: "first_raise (run_stmt eng) [] (read_stmts snapshot_date limit) =
    Some (PyException msg)"
  note t = read_try_fails [OF f, of "sessions w" w]
  note h = handled_failure [of eng "\<lambda>c. read_try eng c snapshot_date limit" w msg read_except,
      OF assms conjunct1 [OF t]]
  show "fst (read_gbif_from_s3 eng snapshot_date limit w) = Return None"
    unfolding read_gbif_from_s3_def h by simp
  show "console (snd (read_gbif_from_s3 eng snapshot_date limit w)) =
        console w @
        [''Error reading from S3: '' @ msg,
         ''\<newline>Troubleshooting tips:'',
         ''1. Ensure the snapshot date exists (e.g., '' @ sq @ ''2023-06-01'' @ sq @ '', '' @
           sq @ ''2024-01-01'' @ sq @ '')'',
         ''2. Check your internet connection'',
         ''3. Verify the S3 path is correct'']"
    unfolding read_gbif_from_s3_def h using conjunct2 [OF t]
    by (simp add: console_close read_except_def print_line_def)
next
  assume f: "first_raise (run_stmt eng) [] (top_stmts snapshot_date region limit) =
    Some (PyException msg)"
  note t = top_try_fails [OF f, of "sessions w" w]
  note h = handled_failure [of eng "\<lambda>c. top_try eng c snapshot_date region limit" w msg
      "top_except snapshot_date region", OF assms conjunct1 [OF t]]
  show "fst (get_top_countries_by_species eng snapshot_date region limit w) = Return None"
    unfolding get_top_countries_by_species_def h by simp
  show "console (snd (get_top_countries_by_species eng snapshot_date region limit w)) =
        console w @
        (if first_raise (run_stmt eng) [] (setup_stmts region) = None
         then [''Querying GBIF data from '' @ region @ ''...''] else []) @
        [''Error querying S3: '' @ msg,
         ''\<newline>Troubleshooting tips:'',
         ''1. Verify snapshot date '' @ sq @ snapshot_date @ sq @ '' exists'',
         ''2. Check region '' @ sq @ region @ sq @ '' is correct (us-east-1 or eu-central-1)'',
         ''3. Ensure internet connection is stable'']"
    unfolding get_top_countries_by_species_def h using conjunct2 [OF t]
    by (simp add: console_close top_except_def print_line_def)
next
  assume f: "first_raise (run_stmt eng) [] (filter_stmts snapshot_date region country_code
    species limit) = Some (PyException msg)"
  note t = filter_try_fails [OF f, of "sessions w" w]
  note h = handled_failure [of eng
      "\<lambda>c. filter_try eng c snapshot_date region country_code species limit" w msg
      filter_except, OF assms conjunct1 [OF t]]
  show "fst (query_gbif_with_filter eng snapshot_date region country_code species limit w) =
      Return None"
    unfolding query_gbif_with_filter_def h by simp
  show "console (snd (query_gbif_with_filter eng snapshot_date region country_code species
        limit w)) = console w @ [''Error: '' @ msg]"
    unfolding query_gbif_with_filter_def h using conjunct2 [OF t]
    by (simp add: console_close filter_except_def print_line_def)
qed


theorem handled_failure_output_witness:
  "connect_raises engine_storage_down = None \<and>
   first_raise (run_stmt engine_storage_down) [] (read_stmts ''2025-10-01'' (Some 10)) =
     Some (PyException ''IO Error: HTTP 404'') \<and>
   first_raise (run_stmt engine_storage_down) [] (top_stmts ''2025-10-01'' ''eu-central-1''
     (Some 10)) = Some (PyException ''IO Error: HTTP 404'') \<and>
   first_raise (run_stmt engine_storage_down) []
     (filter_stmts ''2025-10-01'' ''eu-central-1'' (Some ''US'') None (Some 100)) =
     Some (PyException ''IO Error: HTTP 404'') \<and>
   fst (read_gbif_from_s3 engine_storage_down ''2025-10-01'' (Some 10) world0) = Return None \<and>
   console (snd (read_gbif_from_s3 engine_storage_down ''2025-10-01'' (Some 10) world0)) =
     [''Error reading from S3: IO Error: HTTP 404'',
      ''\<newline>Troubleshooting tips:'',
      ''1. Ensure the snapshot date exists (e.g., '' @ sq @ ''2023-06-01'' @ sq @ '', '' @
        sq @ ''2024-01-01'' @ sq @ '')'',
      ''2. Check your internet connection'',
      ''3. Verify the S3 path is correct''] \<and>
   fst (get_top_countries_by_species engine_storage_down ''2025-10-01'' ''eu-central-1''
     (Some 10) world0) = Return None \<and>
   console (snd (get_top_countries_by_species engine_storage_down ''2025-10-01''
     ''eu-central-1'' (Some 10) world0)) =
     [''Querying GBIF data from eu-central-1...'',
      ''Error querying S3: IO Error: HTTP 404'',
      ''\<newline>Troubleshooting tips:'',
      ''1. Verify snapshot date '' @ sq @ ''2025-10-01'' @ sq @ '' exists'',
      ''2. Check region '' @ sq @ ''eu-central-1'' @ sq @
        '' is correct (us-east-1 or eu-central-1)'',
      ''3. Ensure internet connection is stable''] \<and>
   fst (query_gbif_with_filter engine_storage_down ''2025-10-01'' ''eu-central-1''
     (Some ''US'') None (Some 100) world0) = Return None \<and>
   console (snd (query_gbif_with_filter engine_storage_down ''2025-10-01'' ''eu-central-1''
     (Some ''US'') None (Some 100) world0)) = [''Error: IO Error: HTTP 404'']"
proof -
  have c: "connect_raises engine_storage_down = None"
    by (simp add: engine_storage_down_def)
  have f: "first_raise (run_stmt engine_storage_down) [] (read_stmts ''2025-10-01'' (Some 10)) =
      Some (PyException ''IO Error: HTTP 404'')"
    "first_raise (run_stmt engine_storage_down) [] (top_stmts ''2025-10-01'' ''eu-central-1''
      (Some 10)) = Some (PyException ''IO Error: HTTP 404'')"
    "first_raise (run_stmt engine_storage_down) []
      (filter_stmts ''2025-10-01'' ''eu-central-1'' (Some ''US'') None (Some 100)) =
      Some (PyException ''IO Error: HTTP 404'')"
    "first_raise (run_stmt engine_storage_down) [] (setup_stmts ''eu-central-1'') = None"
    by (simp_all add: engine_storage_down_def read_stmts_def top_stmts_def filter_stmts_def
        setup_stmts_def)
  have w: "console world0 = []"
    by (simp add: world0_def)
  show ?thesis
    using handled_failure_output [OF c, of "''2025-10-01''" "Some 10"
        "''IO Error: HTTP 404''" world0 "''eu-central-1''"]
      handled_failure_output [OF c, of "''2025-10-01''" "Some 100"
        "''IO Error: HTTP 404''" world0 "''eu-central-1''" "Some ''US''" None]
    by (simp add: c f w)
qed

text \<open>
  Not every function prints troubleshooting hints: on an unreachable storage
  \<open>query_gbif_with_filter\<close> returns \<open>None\<close> having printed one line, the diagnostic.
\<close>

theorem filter_failure_prints_no_hints:
  "fst (query_gbif_with_filter engine_storage_down ''2025-10-01'' ''eu-central-1''
     (Some ''US'') None (Some 100) world0) = Return None \<and>
   console (snd (query_gbif_with_filter engine_storage_down ''2025-10-01'' ''eu-central-1''
     (Some ''US'') None (Some 100) world0)) = [''Error: IO Error: HTTP 404''] \<and>
   ''\<newline>Troubleshooting tips:'' \<notin> set (console (snd (query_gbif_with_filter
     engine_storage_down ''2025-10-01'' ''eu-central-1'' (Some ''US'') None (Some 100) world0)))"
proof -
  have "query_gbif_with_filter engine_storage_down ''2025-10-01'' ''eu-central-1''
      (Some ''US'') None (Some 100) world0 =
    (Return None,
     \<lparr>console = [''Error: IO Error: HTTP 404''],
      sessions = [\<lparr>is_open = False,
        executed = filter_stmts ''2025-10-01'' ''eu-central-1'' (Some ''US'') None
          (Some 100)\<rparr>]\<rparr>)"
    by (simp add: query_gbif_with_filter_def duckdb_connect_def engine_storage_down_def
        world0_def filter_try_def bind_io_def conn_execute_def conn_close_def filter_except_def
        print_line_def filter_stmts_def setup_stmts_def)
  then show ?thesis by simp
qed

end
